theory Spec2Isabelle
  imports Main "HOL-Library.AList" "HOL-Library.Monad_Syntax"
begin

section \<open>Data model of \<open>app.py\<close>\<close>

text \<open>
  The application keeps all of its data in Streamlit's session state: a dictionary of
  \<open>Thread\<close> dataclass instances holding \<open>Message\<close> instances, the id of the current thread,
  an optional pending link target, the theme and the list of uploaded files. Python strings
  are modelled as \<open>string\<close>, one \<open>char\<close> per code point, which covers the strings over the
  code points 0 to 255; a Python \<open>dict\<close> keeps insertion order and is modelled as
  an association list with one entry per key, written with \<open>AList.update\<close> (assignment to
  an existing key replaces the value in place, a new key goes to the end) and read with
  \<open>map_of\<close>. The clock (\<open>time.time()\<close>, \<open>datetime.now()\<close>) is an input: every function that
  reads it takes the reading as an argument.
\<close>

record datetime =
  dt_year :: nat
  dt_month :: nat
  dt_day :: nat
  dt_hour :: nat
  dt_minute :: nat
  dt_second :: nat
  dt_microsecond :: nat

text \<open>The file-details dictionary built by \<open>process_uploaded_file\<close>.\<close>

record attachment =
  att_name :: string
  att_size :: nat
  att_type :: string
  att_content :: "string option"

record message =
  m_id :: string
  m_content :: string
  m_role :: string
  m_timestamp :: datetime
  m_parent_id :: "string option"
  m_thread_id :: string
  m_attachments :: "attachment list"

record thread =
  t_id :: string
  t_name :: string
  t_messages :: "message list"
  t_parent_thread_id :: "string option"
  t_created_at :: datetime

record session_state =
  messages :: "message list"
  threads :: "(string \<times> thread) list"
  current_thread :: string
  theme :: string
  uploaded_files :: "attachment list"
  link_parent :: "string option"

text \<open>
  Uncaught exceptions of a script run: Python's \<open>KeyError\<close> (with the missing key) and
  \<open>UnicodeDecodeError\<close>, and Streamlit's \<open>StreamlitDuplicateElementKey\<close> (with the widget
  key that was used twice in one run). A handler returns an \<open>outcome\<close>: the session state
  at the end of the run, alone when the run ended normally and with the exception when
  one ended it.
\<close>

datatype exn = KeyError string | UnicodeDecodeError | StreamlitDuplicateElementKey string

type_synonym outcome = "(exn \<times> session_state) + session_state"

definition final_state :: "outcome \<Rightarrow> session_state" where
  "final_state r = (case r of Inl (e, st) \<Rightarrow> st | Inr st \<Rightarrow> st)"

section \<open>Python string helpers\<close>

text \<open>\<open>str(n)\<close> for an integer: decimal digits, with a minus sign for a negative number.\<close>

definition digit_char :: "nat \<Rightarrow> char" where
  "digit_char d = char_of (48 + d)"

fun str_nat :: "nat \<Rightarrow> string" where
  "str_nat n = (if n < 10 then [digit_char n] else str_nat (n div 10) @ [digit_char (n mod 10)])"

declare str_nat.simps [simp del]

definition str_int :: "int \<Rightarrow> string" where
  "str_int i = (if i < 0 then CHR ''-'' # str_nat (nat (- i)) else str_nat (nat i))"

text \<open>Truthiness of an optional string: \<open>None\<close> and the empty string are false.\<close>

definition truthy :: "string option \<Rightarrow> bool" where
  "truthy p = (case p of None \<Rightarrow> False | Some s \<Rightarrow> s \<noteq> [])"

section \<open>Session initialisation\<close>

text \<open>
  \<open>initialize_session_state\<close> on a fresh session; \<open>now\<close> is the reading of
  \<open>datetime.now()\<close> taken by \<open>Thread.__post_init__\<close> for the main thread.
\<close>

definition initialize_session_state :: "datetime \<Rightarrow> session_state" where
  "initialize_session_state now =
     \<lparr> messages = [],
       threads = [(''main'', \<lparr> t_id = ''main'', t_name = ''Main Conversation'', t_messages = [],
                              t_parent_thread_id = None, t_created_at = now \<rparr>)],
       current_thread = ''main'',
       theme = ''light'',
       uploaded_files = [],
       link_parent = None \<rparr>"

section \<open>Message utilities\<close>

text \<open>
  \<open>add_message\<close>: \<open>ms\<close> is \<open>int(time.time() * 1000)\<close>, \<open>now\<close> the reading of
  \<open>datetime.now()\<close> for the message, \<open>created\<close> the one taken for a thread made on the
  fallback path.
\<close>

definition add_message ::
  "session_state \<Rightarrow> int \<Rightarrow> datetime \<Rightarrow> datetime \<Rightarrow> string \<Rightarrow> string \<Rightarrow> string option
     \<Rightarrow> attachment list \<Rightarrow> string option \<Rightarrow> session_state" where
  "add_message st ms now created content role thread_id attachments parent_id =
     (let tid = (case thread_id of None \<Rightarrow> current_thread st | Some t \<Rightarrow> t);
          message = \<lparr> m_id = ''msg_'' @ str_int ms, m_content = content, m_role = role,
                      m_timestamp = now, m_parent_id = parent_id, m_thread_id = tid,
                      m_attachments = attachments \<rparr>
      in case map_of (threads st) tid of
           Some th \<Rightarrow>
             st\<lparr>threads := AList.update tid (th\<lparr>t_messages := t_messages th @ [message]\<rparr>) (threads st)\<rparr>
         | None \<Rightarrow>
             st\<lparr>threads := AList.update tid
                   \<lparr> t_id = tid,
                     t_name = ''Thread '' @ str_int (int (length (threads st)) + 1),
                     t_messages = [message],
                     t_parent_thread_id = None,
                     t_created_at = created \<rparr> (threads st)\<rparr>)"

text \<open>
  \<open>create_new_thread\<close>: \<open>ms\<close> is \<open>int(time.time() * 1000)\<close>, \<open>now\<close> the reading of
  \<open>datetime.now()\<close> taken by \<open>Thread.__post_init__\<close>. Returns the new id and the state.
\<close>

definition create_new_thread ::
  "session_state \<Rightarrow> int \<Rightarrow> datetime \<Rightarrow> string option \<Rightarrow> string \<times> session_state" where
  "create_new_thread st ms now parent_message_id =
     (let thread_id = ''thread_'' @ str_int ms;
          thread_name = ''Thread '' @ str_int (int (length (threads st)) + 1);
          new_thread = \<lparr> t_id = thread_id, t_name = thread_name, t_messages = [],
                         t_parent_thread_id =
                           (if truthy parent_message_id then Some (current_thread st) else None),
                         t_created_at = now \<rparr>
      in (thread_id, st\<lparr>threads := AList.update thread_id new_thread (threads st)\<rparr>))"

section \<open>The clock and uploaded files\<close>

text \<open>
  One \<open>tick\<close> holds the clock readings one call of \<open>add_message\<close> or
  \<open>create_new_thread\<close> may take: \<open>tk_ms\<close> is \<open>int(time.time() * 1000)\<close>, \<open>tk_now\<close> the
  first reading of \<open>datetime.now()\<close>, \<open>tk_created\<close> the second one (read only when
  \<open>add_message\<close> builds a thread).
\<close>

record tick =
  tk_ms :: int
  tk_now :: datetime
  tk_created :: datetime

text \<open>
  Streamlit's uploaded file. The codecs are library code: \<open>uf_text\<close> is the result of
  \<open>getvalue().decode('utf-8')\<close> (\<open>None\<close> when the bytes are not valid UTF-8 and the call
  raises), \<open>uf_base64\<close> the result of \<open>base64.b64encode(getvalue()).decode()\<close>.
\<close>

record uploaded_file =
  uf_name :: string
  uf_size :: nat
  uf_type :: string
  uf_text :: "string option"
  uf_base64 :: string

definition startswith :: "string \<Rightarrow> string \<Rightarrow> bool" where
  "startswith s p = (take (length p) s = p)"

definition process_uploaded_file :: "uploaded_file \<Rightarrow> exn + attachment" where
  "process_uploaded_file uf =
     (let file_details = \<lparr> att_name = uf_name uf, att_size = uf_size uf, att_type = uf_type uf,
                            att_content = None \<rparr>
      in if startswith (uf_type uf) ''text/'' then
           (case uf_text uf of
              None \<Rightarrow> Inl UnicodeDecodeError
            | Some txt \<Rightarrow> Inr (file_details\<lparr>att_content := Some txt\<rparr>))
         else if startswith (uf_type uf) ''image/'' then
           Inr (file_details\<lparr>att_content := Some (uf_base64 uf)\<rparr>)
         else Inr file_details)"

section \<open>Sending, creating, clearing: \<open>render_input_area\<close>\<close>

text \<open>
  \<open>str.isspace\<close> on the code points a \<open>char\<close> can hold (0 to 255), and \<open>str.strip()\<close>.
\<close>

definition isspace :: "char \<Rightarrow> bool" where
  "isspace c = (let n = (of_char c :: nat)
                in (9 \<le> n \<and> n \<le> 13) \<or> (28 \<le> n \<and> n \<le> 32) \<or> n = 133 \<or> n = 160)"

definition strip :: "string \<Rightarrow> string" where
  "strip s = rev (dropWhile isspace (rev (dropWhile isspace s)))"

fun join :: "string \<Rightarrow> string list \<Rightarrow> string" where
  "join sep [] = []"
| "join sep [x] = x"
| "join sep (x # y # ys) = x @ sep @ join sep (y # ys)"

text \<open>The simulated assistant response (the conditional expression and the \<open>+=\<close> below it).\<close>

definition assistant_response :: "string \<Rightarrow> attachment list \<Rightarrow> string" where
  "assistant_response message_input attachments =
     (if length message_input > 50
      then ''Thank you for your message! I received: '' @ [CHR 0x27] @ take 50 message_input
             @ ''...'' @ [CHR 0x27]
      else ''Thank you for your message: '' @ [CHR 0x27] @ message_input @ [CHR 0x27])
     @ (if attachments \<noteq> []
        then [CHR 0x0A, CHR 0x0A] @ ''I also received '' @ str_int (int (length attachments))
               @ '' file(s): '' @ join '', '' (map att_name attachments)
        else [])"

text \<open>
  The attachment list the send handler builds: empty, or the details of the one uploaded
  file. Decoding a text file that is not valid UTF-8 raises.
\<close>

definition send_attachments :: "uploaded_file option \<Rightarrow> exn + attachment list" where
  "send_attachments uploaded_file =
     (case uploaded_file of
        None \<Rightarrow> Inr []
      | Some uf \<Rightarrow> (case process_uploaded_file uf of
                      Inl e \<Rightarrow> Inl e
                    | Inr file_details \<Rightarrow> Inr [file_details]))"

text \<open>
  The button handlers of \<open>render_input_area\<close>. The arguments are the widget values of the
  script run: the uploaded file, the text area and the buttons; \<open>c1\<close> and \<open>c2\<close> are the
  clock readings of the first and second call that reads the clock. \<open>st.rerun()\<close> ends the
  run, so a later handler is reached only when the earlier ones did not fire. The handler
  of the link button only shows a notice and changes nothing. Both exceptions of this
  function are raised before it has changed the state.
\<close>

definition render_input_area ::
  "session_state \<Rightarrow> uploaded_file option \<Rightarrow> string \<Rightarrow> bool \<Rightarrow> bool \<Rightarrow> bool \<Rightarrow> tick \<Rightarrow> tick
     \<Rightarrow> outcome" where
  "render_input_area st uploaded_file message_input send_clicked new_thread_clicked clear_clicked
       c1 c2 =
     (if send_clicked \<and> strip message_input \<noteq> [] then
        (case send_attachments uploaded_file of
           Inl e \<Rightarrow> Inl (e, st)
         | Inr attachments \<Rightarrow>
             (let st1 = st\<lparr>uploaded_files := uploaded_files st @ attachments\<rparr>;
                  parent_id = link_parent st1;
                  st2 = add_message st1 (tk_ms c1) (tk_now c1) (tk_created c1)
                          message_input ''user'' None attachments parent_id;
                  response = assistant_response message_input attachments;
                  st3 = add_message st2 (tk_ms c2) (tk_now c2) (tk_created c2)
                          response ''assistant'' None [] None
              in Inr (st3\<lparr>link_parent := None\<rparr>)))
      else if new_thread_clicked then
        (let (new_thread_id, st1) = create_new_thread st (tk_ms c1) (tk_now c1) None
         in Inr (st1\<lparr>current_thread := new_thread_id\<rparr>))
      else if clear_clicked then
        (case map_of (threads st) (current_thread st) of
           None \<Rightarrow> Inl (KeyError (current_thread st), st)
         | Some th \<Rightarrow>
             Inr (st\<lparr>threads := AList.update (current_thread st) (th\<lparr>t_messages := []\<rparr>) (threads st),
                     link_parent := None\<rparr>))
      else Inr st)"

section \<open>The chat view and the sidebar\<close>

text \<open>
  The loop over the messages of the current thread in \<open>render_chat_interface\<close>, as far as it
  touches the state: each message gets a link button with the key \<open>link_\<close> followed by the
  message id. Streamlit refuses a key that an earlier button of the same run has (here:
  an earlier message with the same id) and ends the run; otherwise the pressed button
  (\<open>link_button\<close> is the message id on it, if any) sets the link target. \<open>seen\<close> holds
  the ids of the buttons made so far.
\<close>

fun link_buttons :: "message list \<Rightarrow> string list \<Rightarrow> string option \<Rightarrow> session_state \<Rightarrow> outcome" where
  "link_buttons [] seen link_button st = Inr st"
| "link_buttons (message # rest) seen link_button st =
     (if m_id message \<in> set seen
      then Inl (StreamlitDuplicateElementKey (''link_'' @ m_id message), st)
      else link_buttons rest (m_id message # seen) link_button
             (if link_button = Some (m_id message)
              then st\<lparr>link_parent := Some (m_id message)\<rparr> else st))"

text \<open>
  \<open>render_chat_interface\<close>: when the current thread is missing the view shows an error and
  returns; otherwise the header's New Thread button, the messages with their link buttons
  and the input area.
\<close>

definition render_chat_interface ::
  "session_state \<Rightarrow> bool \<Rightarrow> string option \<Rightarrow> uploaded_file option \<Rightarrow> string \<Rightarrow> bool \<Rightarrow> bool
     \<Rightarrow> bool \<Rightarrow> tick \<Rightarrow> tick \<Rightarrow> outcome" where
  "render_chat_interface st header_new_thread link_button uploaded_file message_input
       send_clicked new_thread_clicked clear_clicked c1 c2 =
     (case map_of (threads st) (current_thread st) of
        None \<Rightarrow> Inr st
      | Some current \<Rightarrow>
          if header_new_thread then
            (let (new_thread_id, st1) = create_new_thread st (tk_ms c1) (tk_now c1) None
             in Inr (st1\<lparr>current_thread := new_thread_id\<rparr>))
          else
            (case link_buttons (t_messages current) [] link_button st of
               Inl raised \<Rightarrow> Inl raised
             | Inr st1 \<Rightarrow> render_input_area st1 uploaded_file message_input send_clicked
                            new_thread_clicked clear_clicked c1 c2))"

text \<open>
  \<open>render_conversations_tab\<close>: one button per thread of the store; \<open>clicked\<close> is the thread
  id on the pressed button. The loop sets the current thread at the first entry whose
  button was pressed and reruns.
\<close>

fun conversations_loop :: "(string \<times> thread) list \<Rightarrow> string \<Rightarrow> session_state \<Rightarrow> session_state" where
  "conversations_loop [] clicked st = st"
| "conversations_loop ((thread_id, th) # rest) clicked st =
     (if clicked = thread_id then st\<lparr>current_thread := thread_id\<rparr>
      else conversations_loop rest clicked st)"

definition render_conversations_tab :: "session_state \<Rightarrow> string \<Rightarrow> outcome" where
  "render_conversations_tab st clicked = Inr (conversations_loop (threads st) clicked st)"

text \<open>The root loop of \<open>render_threads_tab\<close>: the threads without a parent, in store order.\<close>

definition root_threads :: "session_state \<Rightarrow> (string \<times> thread) list" where
  "root_threads st = filter (\<lambda>(thread_id, th). t_parent_thread_id th = None) (threads st)"

definition toggle_theme :: "session_state \<Rightarrow> session_state" where
  "toggle_theme st = st\<lparr>theme := (if theme st = ''light'' then ''dark'' else ''light'')\<rparr>"

text \<open>\<open>render_files_tab\<close>: the Remove button of entry \<open>i\<close> pops it from the list.\<close>

definition render_files_tab :: "session_state \<Rightarrow> nat \<Rightarrow> outcome" where
  "render_files_tab st i =
     (if i < length (uploaded_files st)
      then Inr (st\<lparr>uploaded_files := take i (uploaded_files st) @ drop (Suc i) (uploaded_files st)\<rparr>)
      else Inr st)"

section \<open>Export\<close>

text \<open>
  \<open>str(datetime)\<close> of a naive datetime is \<open>isoformat(sep=' ')\<close>: the date as
  \<open>%04d-%02d-%02d\<close>, a space, the time as \<open>%02d:%02d:%02d\<close>, and \<open>.%06d\<close> for the
  microseconds when they are not zero.
\<close>

definition zero_pad :: "nat \<Rightarrow> nat \<Rightarrow> string" where
  "zero_pad w n = replicate (w - length (str_nat n)) (CHR ''0'') @ str_nat n"

definition str_datetime :: "datetime \<Rightarrow> string" where
  "str_datetime d =
     zero_pad 4 (dt_year d) @ ''-'' @ zero_pad 2 (dt_month d) @ ''-'' @ zero_pad 2 (dt_day d)
     @ '' '' @ zero_pad 2 (dt_hour d) @ '':'' @ zero_pad 2 (dt_minute d) @ '':''
     @ zero_pad 2 (dt_second d)
     @ (if dt_microsecond d \<noteq> 0 then ''.'' @ zero_pad 6 (dt_microsecond d) else [])"

text \<open>
  The values \<open>dataclasses.asdict\<close> builds (dictionaries, lists, strings, integers,
  \<open>None\<close> and the datetime objects it leaves in place), and the JSON tree \<open>json.dumps\<close>
  writes: \<open>default=str\<close> is called on each datetime. The rendering of the tree as indented
  text is not part of the model.
\<close>

datatype pyval =
    PNone
  | PStr string
  | PInt int
  | PDatetime datetime
  | PList "pyval list"
  | PDict "(string \<times> pyval) list"

datatype json =
    JNull
  | JString string
  | JNumber int
  | JArray "json list"
  | JObject "(string \<times> json) list"

definition opt_str :: "string option \<Rightarrow> pyval" where
  "opt_str x = (case x of None \<Rightarrow> PNone | Some s \<Rightarrow> PStr s)"

definition asdict_attachment :: "attachment \<Rightarrow> pyval" where
  "asdict_attachment a =
     PDict [(''name'', PStr (att_name a)), (''size'', PInt (int (att_size a))),
            (''type'', PStr (att_type a)), (''content'', opt_str (att_content a))]"

definition asdict_message :: "message \<Rightarrow> pyval" where
  "asdict_message m =
     PDict [(''id'', PStr (m_id m)), (''content'', PStr (m_content m)),
            (''role'', PStr (m_role m)), (''timestamp'', PDatetime (m_timestamp m)),
            (''parent_id'', opt_str (m_parent_id m)), (''thread_id'', PStr (m_thread_id m)),
            (''attachments'', PList (map asdict_attachment (m_attachments m)))]"

definition asdict_thread :: "thread \<Rightarrow> pyval" where
  "asdict_thread th =
     PDict [(''id'', PStr (t_id th)), (''name'', PStr (t_name th)),
            (''messages'', PList (map asdict_message (t_messages th))),
            (''parent_thread_id'', opt_str (t_parent_thread_id th)),
            (''created_at'', PDatetime (t_created_at th))]"

definition export_data :: "session_state \<Rightarrow> pyval" where
  "export_data st =
     PDict [(''threads'', PDict (map (\<lambda>(tid, th). (tid, asdict_thread th)) (threads st))),
            (''current_thread'', PStr (current_thread st))]"

primrec json_dumps :: "pyval \<Rightarrow> json" where
  "json_dumps PNone = JNull"
| "json_dumps (PStr s) = JString s"
| "json_dumps (PInt i) = JNumber i"
| "json_dumps (PDatetime d) = JString (str_datetime d)"
| "json_dumps (PList xs) = JArray (map json_dumps xs)"
| "json_dumps (PDict kvs) = JObject (map (map_prod id json_dumps) kvs)"

text \<open>
  \<open>render_settings_tab\<close>: the theme button toggles and reruns; the export button offers
  the JSON for download. The result is the state and the download, if any.
\<close>

definition render_settings_tab :: "session_state \<Rightarrow> bool \<Rightarrow> bool \<Rightarrow> session_state \<times> json option" where
  "render_settings_tab st theme_clicked export_clicked =
     (if theme_clicked then (toggle_theme st, None)
      else if export_clicked then (st, Some (json_dumps (export_data st)))
      else (st, None))"

section \<open>Reading an export back\<close>























section \<open>Script runs\<close>

text \<open>
  Each interaction of the user reruns the script once with the widget values of that
  interaction. The session state at the end of a run is where the next run starts, also
  when an exception ended the run.
\<close>

datatype event =
    Conversations string
  | Files nat
  | Settings bool bool
  | Chat bool "string option" "uploaded_file option" string bool bool bool tick tick

fun step :: "session_state \<Rightarrow> event \<Rightarrow> outcome" where
  "step st (Conversations clicked) = render_conversations_tab st clicked"
| "step st (Files i) = render_files_tab st i"
| "step st (Settings theme_clicked export_clicked) =
     Inr (fst (render_settings_tab st theme_clicked export_clicked))"
| "step st (Chat header_new_thread link_button uploaded_file message_input send_clicked
              new_thread_clicked clear_clicked c1 c2) =
     render_chat_interface st header_new_thread link_button uploaded_file message_input
       send_clicked new_thread_clicked clear_clicked c1 c2"

inductive reachable :: "session_state \<Rightarrow> bool" where
  reachable_init: "reachable (initialize_session_state now)"
| reachable_step: "reachable st \<Longrightarrow> step st ev = Inr st' \<Longrightarrow> reachable st'"
| reachable_raise: "reachable st \<Longrightarrow> step st ev = Inl (e, st') \<Longrightarrow> reachable st'"

text \<open>
  A sequence of \<open>create_new_thread\<close> calls in one session, each with its clock reading and
  its argument; the result is the list of returned ids and the final state.
\<close>

fun create_threads ::
  "session_state \<Rightarrow> (int \<times> datetime \<times> string option) list \<Rightarrow> string list \<times> session_state" where
  "create_threads st [] = ([], st)"
| "create_threads st ((ms, now, parent_message_id) # calls) =
     (let (thread_id, st1) = create_new_thread st ms now parent_message_id;
          (ids, st2) = create_threads st1 calls
      in (thread_id # ids, st2))"

text \<open>
  The ids in the store, and the well-formedness of a session state: the store is a
  dictionary (one entry per key), the current thread is in it, and so is the main thread.
\<close>

definition thread_ids :: "session_state \<Rightarrow> string set" where
  "thread_ids st = fst ` set (threads st)"

definition store_inv :: "session_state \<Rightarrow> bool" where
  "store_inv st =
     (distinct (map fst (threads st)) \<and> current_thread st \<in> thread_ids st \<and>
      ''main'' \<in> thread_ids st)"

text \<open>Clock readings, files and states for the examples.\<close>

definition sample_time :: datetime where
  "sample_time = \<lparr> dt_year = 2024, dt_month = 5, dt_day = 17, dt_hour = 9, dt_minute = 30,
                    dt_second = 5, dt_microsecond = 120034 \<rparr>"

definition sample_tick :: "int \<Rightarrow> tick" where
  "sample_tick ms = \<lparr> tk_ms = ms, tk_now = sample_time, tk_created = sample_time \<rparr>"

definition sample_file :: uploaded_file where
  "sample_file = \<lparr> uf_name = ''notes.txt'', uf_size = 5, uf_type = ''text/plain'',
                    uf_text = Some ''hello'', uf_base64 = ''aGVsbG8='' \<rparr>"


definition sample_message :: "string \<Rightarrow> string \<Rightarrow> string \<Rightarrow> string \<Rightarrow> message" where
  "sample_message mid content role tid =
     \<lparr> m_id = mid, m_content = content, m_role = role, m_timestamp = sample_time,
       m_parent_id = None, m_thread_id = tid, m_attachments = [] \<rparr>"

definition sample_state :: session_state where
  "sample_state =
     \<lparr> messages = [],
       threads =
         [(''main'', \<lparr> t_id = ''main'', t_name = ''Main Conversation'',
                      t_messages = [sample_message ''msg_1'' ''Hello'' ''user'' ''main''],
                      t_parent_thread_id = None, t_created_at = sample_time \<rparr>),
          (''thread_7'', \<lparr> t_id = ''thread_7'', t_name = ''Thread 2'',
                          t_messages = [sample_message ''msg_9'' ''child msg'' ''user'' ''thread_7''],
                          t_parent_thread_id = None, t_created_at = sample_time \<rparr>)],
       current_thread = ''main'',
       theme = ''light'',
       uploaded_files = [],
       link_parent = Some ''msg_1'' \<rparr>"


section \<open>Decimal rendering is injective\<close>

lemma digit_char_inj: "a < 10 \<Longrightarrow> b < 10 \<Longrightarrow> digit_char a = digit_char b \<Longrightarrow> a = b"
  by (simp add: digit_char_def)

lemma str_nat_nonempty: "str_nat n \<noteq> []"
  by (subst str_nat.simps) simp

lemma str_nat_inj: "str_nat n = str_nat m \<Longrightarrow> n = m"
proof (induction n arbitrary: m rule: str_nat.induct)
  case (1 n)
  note unfold = str_nat.simps [of n] str_nat.simps [of m]
  show ?case
  proof (cases "n < 10")
    case True
    show ?thesis
    proof (cases "m < 10")
      case mt: True
      from "1.prems" True mt have "digit_char n = digit_char m"
        by (simp add: unfold)
      with True mt show ?thesis by (blast intro: digit_char_inj)
    next
      case mf: False
      from "1.prems" True mf show ?thesis
        by (simp add: unfold str_nat_nonempty [symmetric])
    qed
  next
    case False
    show ?thesis
    proof (cases "m < 10")
      case mt: True
      from "1.prems" False mt show ?thesis
        by (simp add: unfold str_nat_nonempty)
    next
      case mf: False
      from "1.prems" False mf
      have hi: "str_nat (n div 10) = str_nat (m div 10)"
        and lo: "digit_char (n mod 10) = digit_char (m mod 10)"
        by (simp_all add: unfold)
      from "1.IH" [OF False hi] have "n div 10 = m div 10" .
      moreover from lo have "n mod 10 = m mod 10" by (auto intro: digit_char_inj)
      ultimately show ?thesis by (metis div_mult_mod_eq)
    qed
  qed
qed

lemma str_nat_digits: "c \<in> set (str_nat n) \<Longrightarrow> \<exists>d<10. c = digit_char d"
proof (induction n rule: str_nat.induct)
  case (1 n)
  show ?case
  proof (cases "n < 10")
    case True
    with "1.prems" show ?thesis by (auto simp: str_nat.simps [of n])
  next
    case False
    with "1.prems" have "c \<in> set (str_nat (n div 10)) \<or> c = digit_char (n mod 10)"
      by (auto simp: str_nat.simps [of n])
    then show ?thesis
    proof
      assume "c \<in> set (str_nat (n div 10))"
      with "1.IH" [OF False] show ?thesis .
    next
      assume "c = digit_char (n mod 10)"
      moreover have "n mod 10 < 10" by simp
      ultimately show ?thesis by blast
    qed
  qed
qed

lemma minus_not_digit: "d < 10 \<Longrightarrow> digit_char d \<noteq> CHR ''-''"
  by (simp add: digit_char_def char_of_eq_iff take_bit_eq_mod)

lemma str_nat_no_minus: "hd (str_nat n) \<noteq> CHR ''-''"
  using str_nat_digits [of "hd (str_nat n)" n] str_nat_nonempty [of n] minus_not_digit
  by (metis hd_in_set)

lemma str_int_inj: "str_int i = str_int j \<Longrightarrow> i = j"
proof -
  assume eq: "str_int i = str_int j"
  have ne: "\<And>n m. CHR ''-'' # str_nat n \<noteq> str_nat m"
    using str_nat_no_minus by (metis list.sel(1))
  show ?thesis
  proof (cases "i < 0")
    case True
    show ?thesis
    proof (cases "j < 0")
      case jt: True
      with True eq have "str_nat (nat (- i)) = str_nat (nat (- j))" by (simp add: str_int_def)
      then have "nat (- i) = nat (- j)" by (rule str_nat_inj)
      with True jt show ?thesis by simp
    next
      case jf: False
      with True eq ne show ?thesis by (auto simp: str_int_def)
    qed
  next
    case False
    show ?thesis
    proof (cases "j < 0")
      case jt: True
      with False eq ne [of "nat (- j)" "nat i"] show ?thesis by (auto simp: str_int_def)
    next
      case jf: False
      with False eq have "str_nat (nat i) = str_nat (nat j)" by (simp add: str_int_def)
      then have "nat i = nat j" by (rule str_nat_inj)
      with False jf show ?thesis by simp
    qed
  qed
qed

section \<open>Facts about the store operations\<close>

lemma update_fresh: "map_of al k = None \<Longrightarrow> AList.update k v al = al @ [(k, v)]"
  by (induction al) (auto split: if_splits)

lemma create_new_thread_id: "fst (create_new_thread st ms now p) = ''thread_'' @ str_int ms"
  by (simp add: create_new_thread_def Let_def)

lemma create_threads_ids:
  "fst (create_threads st calls) = map (\<lambda>c. ''thread_'' @ str_int (fst c)) calls"
proof (induction calls arbitrary: st)
  case Nil
  show ?case by simp
next
  case (Cons c calls)
  obtain ms now p where c: "c = (ms, now, p)" by (cases c)
  show ?case
    by (simp add: c case_prod_beta Let_def create_new_thread_id Cons.IH)
qed

lemma thread_ids_fields [simp]:
  "thread_ids (st\<lparr>current_thread := c\<rparr>) = thread_ids st"
  "thread_ids (st\<lparr>link_parent := l\<rparr>) = thread_ids st"
  "thread_ids (st\<lparr>uploaded_files := u\<rparr>) = thread_ids st"
  "thread_ids (st\<lparr>theme := t\<rparr>) = thread_ids st"
  "thread_ids (st\<lparr>threads := al\<rparr>) = fst ` set al"
  by (simp_all add: thread_ids_def)

lemma thread_ids_lookup: "map_of (threads st) k = Some th \<Longrightarrow> k \<in> thread_ids st"
  unfolding thread_ids_def by (metis map_of_eq_None_iff option.distinct(1))

lemma add_message_ids:
  "thread_ids (add_message st ms now created content role thread_id atts pid) =
     insert (case thread_id of None \<Rightarrow> current_thread st | Some t \<Rightarrow> t) (thread_ids st)"
  by (simp add: add_message_def Let_def dom_update thread_ids_def split: option.splits)

lemma add_message_current:
  "current_thread (add_message st ms now created content role thread_id atts pid) = current_thread st"
  by (simp add: add_message_def Let_def split: option.splits)

lemma add_message_distinct:
  "distinct (map fst (threads st)) \<Longrightarrow>
     distinct (map fst (threads (add_message st ms now created content role thread_id atts pid)))"
  by (simp add: add_message_def Let_def distinct_update split: option.splits)

lemma create_new_thread_distinct:
  "distinct (map fst (threads st)) \<Longrightarrow>
     distinct (map fst (threads (snd (create_new_thread st ms now p))))"
  by (simp add: create_new_thread_def Let_def distinct_update)

lemma create_new_thread_ids:
  "thread_ids (snd (create_new_thread st ms now p)) =
     insert (fst (create_new_thread st ms now p)) (thread_ids st)"
  by (simp add: create_new_thread_def Let_def dom_update thread_ids_def)

lemma conversations_loop_eq:
  "conversations_loop al clicked st =
     (if clicked \<in> fst ` set al then st\<lparr>current_thread := clicked\<rparr> else st)"
  by (induction al) force+

text \<open>
  The send handler gets its attachments unless the upload is a text file that is not valid
  UTF-8.
\<close>

lemma send_attachments_ok:
  "(\<exists>atts. send_attachments uploaded = Inr atts) \<longleftrightarrow>
     (case uploaded of
        None \<Rightarrow> True
      | Some uf \<Rightarrow> startswith (uf_type uf) ''text/'' \<longrightarrow> uf_text uf \<noteq> None)"
  by (auto simp: send_attachments_def process_uploaded_file_def Let_def
      split: option.splits sum.splits if_splits)

text \<open>The whole effect of a send on a state whose current thread is in the store.\<close>

lemma send_result:
  assumes "strip msg \<noteq> []" and "send_attachments uploaded = Inr atts"
    and "map_of (threads st) (current_thread st) = Some th"
  shows "render_input_area st uploaded msg True nt cl c1 c2 =
     Inr (st\<lparr>uploaded_files := uploaded_files st @ atts,
            threads := AList.update (current_thread st)
              (th\<lparr>t_messages := t_messages th @
                 [\<lparr> m_id = ''msg_'' @ str_int (tk_ms c1), m_content = msg, m_role = ''user'',
                    m_timestamp = tk_now c1, m_parent_id = link_parent st,
                    m_thread_id = current_thread st, m_attachments = atts \<rparr>,
                  \<lparr> m_id = ''msg_'' @ str_int (tk_ms c2),
                    m_content = assistant_response msg atts, m_role = ''assistant'',
                    m_timestamp = tk_now c2, m_parent_id = None,
                    m_thread_id = current_thread st, m_attachments = [] \<rparr>]\<rparr>) (threads st),
            link_parent := None\<rparr>)"
  using assms by (simp add: render_input_area_def add_message_def Let_def update_conv')

section \<open>The handlers keep the current thread and the main thread in the store\<close>

lemma add_message_inv:
  "store_inv st \<Longrightarrow> store_inv (add_message st ms now created content role thread_id atts pid)"
  by (simp add: store_inv_def add_message_ids add_message_current add_message_distinct)

lemma create_new_thread_inv:
  assumes "store_inv st" and "create_new_thread st ms now p = (tid, st1)"
  shows "store_inv (st1\<lparr>current_thread := tid\<rparr>)"
proof -
  from assms(2) have "tid = fst (create_new_thread st ms now p)"
    and "st1 = snd (create_new_thread st ms now p)" by simp_all
  then have "thread_ids st1 = insert tid (thread_ids st)"
    and "distinct (map fst (threads st)) \<longrightarrow> distinct (map fst (threads st1))"
    by (simp_all add: create_new_thread_ids create_new_thread_distinct)
  with assms(1) show ?thesis by (simp add: store_inv_def)
qed

lemma store_inv_link [simp]: "store_inv (st\<lparr>link_parent := l\<rparr>) = store_inv st"
  by (simp add: store_inv_def)

lemma store_inv_uploaded [simp]: "store_inv (st\<lparr>uploaded_files := u\<rparr>) = store_inv st"
  by (simp add: store_inv_def)

lemma store_inv_theme [simp]: "store_inv (st\<lparr>theme := t\<rparr>) = store_inv st"
  by (simp add: store_inv_def)

lemma final_state_simps [simp]:
  "final_state (Inr st) = st" "final_state (Inl (e, st)) = st"
  by (simp_all add: final_state_def)

lemma render_input_area_inv:
  assumes "store_inv st"
  shows "store_inv (final_state (render_input_area st uploaded msg send nt cl c1 c2))"
proof -
  consider (send) "send \<and> strip msg \<noteq> []"
    | (new) "\<not> (send \<and> strip msg \<noteq> [])" "nt"
    | (clear) "\<not> (send \<and> strip msg \<noteq> [])" "\<not> nt" "cl"
    | (none) "\<not> (send \<and> strip msg \<noteq> [])" "\<not> nt" "\<not> cl" by blast
  then show ?thesis
  proof cases
    case send
    show ?thesis
    proof (cases "send_attachments uploaded")
      case (Inl e)
      with send assms show ?thesis by (simp add: render_input_area_def)
    next
      case (Inr atts)
      with send have "final_state (render_input_area st uploaded msg send nt cl c1 c2) =
          (add_message (add_message (st\<lparr>uploaded_files := uploaded_files st @ atts\<rparr>)
                (tk_ms c1) (tk_now c1) (tk_created c1) msg ''user'' None atts (link_parent st))
                (tk_ms c2) (tk_now c2) (tk_created c2) (assistant_response msg atts)
                ''assistant'' None [] None)
                \<lparr>link_parent := None\<rparr>"
        by (simp add: render_input_area_def Let_def)
      with assms show ?thesis by (simp add: add_message_inv)
    qed
  next
    case new
    obtain tid st1 where c: "create_new_thread st (tk_ms c1) (tk_now c1) None = (tid, st1)"
      by (cases "create_new_thread st (tk_ms c1) (tk_now c1) None")
    with new have "final_state (render_input_area st uploaded msg send nt cl c1 c2)
        = st1\<lparr>current_thread := tid\<rparr>"
      by (auto simp: render_input_area_def)
    with create_new_thread_inv [OF assms c] show ?thesis by simp
  next
    case clear
    show ?thesis
    proof (cases "map_of (threads st) (current_thread st)")
      case None
      with clear assms show ?thesis by (auto simp: render_input_area_def)
    next
      case (Some th)
      with clear have "final_state (render_input_area st uploaded msg send nt cl c1 c2) =
          st\<lparr>threads := AList.update (current_thread st) (th\<lparr>t_messages := []\<rparr>) (threads st),
             link_parent := None\<rparr>"
        by (auto simp: render_input_area_def)
      with assms show ?thesis
        by (simp add: store_inv_def dom_update distinct_update thread_ids_def [of st])
    qed
  next
    case none
    with assms show ?thesis by (auto simp: render_input_area_def)
  qed
qed

text \<open>The link buttons change at most the link target, also when the run ends there.\<close>

lemma link_buttons_state:
  "\<exists>l. final_state (link_buttons ms seen lb st) = st\<lparr>link_parent := l\<rparr>"
proof (induction ms arbitrary: seen st)
  case Nil
  show ?case by (auto intro: exI [of _ "link_parent st"])
next
  case (Cons m ms)
  show ?case
  proof (cases "m_id m \<in> set seen")
    case True
    then show ?thesis by (auto intro: exI [of _ "link_parent st"])
  next
    case False
    from Cons [of "m_id m # seen"
        "if lb = Some (m_id m) then st\<lparr>link_parent := Some (m_id m)\<rparr> else st"]
    obtain l where "final_state (link_buttons (m # ms) seen lb st) =
        (if lb = Some (m_id m) then st\<lparr>link_parent := Some (m_id m)\<rparr> else st)\<lparr>link_parent := l\<rparr>"
      using False by auto
    then have "final_state (link_buttons (m # ms) seen lb st) = st\<lparr>link_parent := l\<rparr>"
      by (simp split: if_splits)
    then show ?thesis by blast
  qed
qed

lemma render_chat_interface_inv:
  assumes "store_inv st"
  shows "store_inv (final_state (render_chat_interface st hdr lb uploaded msg send nt cl c1 c2))"
proof (cases "map_of (threads st) (current_thread st)")
  case None
  with assms show ?thesis by (simp add: render_chat_interface_def)
next
  case (Some cur)
  show ?thesis
  proof (cases hdr)
    case True
    obtain tid st1 where c: "create_new_thread st (tk_ms c1) (tk_now c1) None = (tid, st1)"
      by (cases "create_new_thread st (tk_ms c1) (tk_now c1) None")
    with True Some have
      "final_state (render_chat_interface st hdr lb uploaded msg send nt cl c1 c2)
         = st1\<lparr>current_thread := tid\<rparr>"
      by (simp add: render_chat_interface_def)
    with create_new_thread_inv [OF assms c] show ?thesis by simp
  next
    case False
    obtain l where l: "final_state (link_buttons (t_messages cur) [] lb st) = st\<lparr>link_parent := l\<rparr>"
      using link_buttons_state by blast
    show ?thesis
    proof (cases "link_buttons (t_messages cur) [] lb st")
      case (Inl raised)
      obtain e s where "raised = (e, s)" by (cases raised)
      with Inl l False Some assms show ?thesis
        by (simp add: render_chat_interface_def)
    next
      case (Inr st1)
      with l assms have "store_inv st1" by simp
      then have "store_inv (final_state (render_input_area st1 uploaded msg send nt cl c1 c2))"
        by (rule render_input_area_inv)
      with Inr False Some show ?thesis by (simp add: render_chat_interface_def)
    qed
  qed
qed

lemma step_inv:
  assumes "store_inv st"
  shows "store_inv (final_state (step st ev))"
proof (cases ev)
  case (Conversations clicked)
  then have "final_state (step st ev) =
      (if clicked \<in> thread_ids st then st\<lparr>current_thread := clicked\<rparr> else st)"
    by (simp add: render_conversations_tab_def conversations_loop_eq thread_ids_def)
  with assms show ?thesis by (simp add: store_inv_def)
next
  case (Files i)
  with assms show ?thesis by (simp add: render_files_tab_def)
next
  case (Settings tc ec)
  with assms show ?thesis by (simp add: render_settings_tab_def toggle_theme_def)
next
  case (Chat hdr lb uploaded msg send nt cl c1 c2)
  with assms show ?thesis by (simp add: render_chat_interface_inv)
qed

section \<open>Timestamps and snapshots read back\<close>


















section \<open>Thread ids\<close>

text \<open>
  Claim C1, as the specification states it: in every sequence of \<open>createThread\<close> calls of
  one session the returned ids are pairwise different. The id is \<open>thread_\<close> followed by the
  millisecond reading of the clock and nothing else, so two calls that read the same
  millisecond return the same id: the claim fails for them.
\<close>

theorem create_threads_same_ms_counterexample:
  "\<not> distinct (fst (create_threads (initialize_session_state sample_time)
        [(1000, sample_time, None), (1000, sample_time, None)]))"
  unfolding create_threads_ids by simp

text \<open>
  Claim C1, amended: in every sequence of \<open>create_new_thread\<close> calls whose millisecond
  clock readings are pairwise different, the returned ids are pairwise different, whatever
  the state the sequence starts in.
\<close>

theorem create_threads_distinct_ids:
  "distinct (map fst calls) \<Longrightarrow> distinct (fst (create_threads st calls))"
  by (simp add: create_threads_ids distinct_map inj_on_def str_int_inj comp_def)

theorem create_threads_distinct_ids_witness:
  "distinct (map fst [(1000::int, sample_time, None), (1001, sample_time, Some ''msg_1'')])
   \<and> distinct (fst (create_threads (initialize_session_state sample_time)
        [(1000, sample_time, None), (1001, sample_time, Some ''msg_1'')]))"
  using create_threads_distinct_ids
    [of "[(1000, sample_time, None), (1001, sample_time, Some ''msg_1'')]"
      "initialize_session_state sample_time"]
  by simp

section \<open>Sending a message\<close>




text \<open>
  Claim C3, as the specification states it: a send with empty or whitespace-only text
  fails with an error. The handler is guarded by \<open>send_clicked and message_input.strip()\<close>
  and has no other branch for a blank text: the run ends normally.
\<close>

theorem send_blank_counterexample:
  "\<not> isl (render_input_area (initialize_session_state sample_time) None '' '' True False False
       (sample_tick 1) (sample_tick 2))"
  by (simp add: render_input_area_def strip_def isspace_def)

text \<open>
  Claim C3, amended: a send with empty or whitespace-only text is skipped without an
  error and leaves the whole session state as it was, so no message is appended to any
  thread.
\<close>

theorem send_blank_is_skipped:
  "strip msg = [] \<Longrightarrow> render_input_area st uploaded msg True False False c1 c2 = Inr st"
  by (simp add: render_input_area_def)

theorem send_blank_is_skipped_witness:
  "strip [CHR '' '', CHR 0x09, CHR 0x0A] = []
   \<and> render_input_area sample_state (Some sample_file)
        [CHR '' '', CHR 0x09, CHR 0x0A] True False False (sample_tick 1) (sample_tick 2)
      = Inr sample_state"
proof -
  have blank: "strip [CHR '' '', CHR 0x09, CHR 0x0A] = []"
    by (simp add: strip_def isspace_def)
  from send_blank_is_skipped [OF blank] blank show ?thesis by simp
qed

text \<open>
  Claim C4: after a send with non-blank text the assistant message, the last one of the
  current thread, quotes the text whole behind \<open>Thank you for your message:\<close> when it has
  at most 50 characters and its first 50 characters followed by three dots behind
  \<open>Thank you for your message! I received:\<close> otherwise; without attachments that is the
  whole reply, with attachments a blank line and a line with their number and their
  names joined by a comma and a space follow.
\<close>

theorem send_assistant_reply_text:
  assumes "strip msg \<noteq> []" and "send_attachments uploaded = Inr atts"
    and "map_of (threads st) (current_thread st) = Some th"
  shows "\<exists>st' th'. render_input_area st uploaded msg True nt cl c1 c2 = Inr st'
     \<and> map_of (threads st') (current_thread st) = Some th'
     \<and> m_role (last (t_messages th')) = ''assistant''
     \<and> m_content (last (t_messages th')) =
         (if length msg \<le> 50
          then ''Thank you for your message: '' @ [CHR 0x27] @ msg @ [CHR 0x27]
          else ''Thank you for your message! I received: '' @ [CHR 0x27] @ take 50 msg
                 @ ''...'' @ [CHR 0x27])
         @ (if atts = [] then []
            else [CHR 0x0A, CHR 0x0A] @ ''I also received '' @ str_int (int (length atts))
                   @ '' file(s): '' @ join '', '' (map att_name atts))"
  by (simp add: send_result [OF assms] update_conv' assistant_response_def)

theorem send_assistant_reply_text_witness:
  "strip ''hi'' \<noteq> []
   \<and> send_attachments (Some sample_file)
       = Inr [\<lparr> att_name = ''notes.txt'', att_size = 5, att_type = ''text/plain'',
                 att_content = Some ''hello'' \<rparr>]
   \<and> map_of (threads (initialize_session_state sample_time)) ''main''
       = Some \<lparr> t_id = ''main'', t_name = ''Main Conversation'', t_messages = [],
                t_parent_thread_id = None, t_created_at = sample_time \<rparr>
   \<and> (\<exists>st' th'. render_input_area (initialize_session_state sample_time) (Some sample_file)
                    ''hi'' True False False (sample_tick 1) (sample_tick 2) = Inr st'
         \<and> map_of (threads st') ''main'' = Some th'
         \<and> m_content (last (t_messages th')) =
             ''Thank you for your message: '' @ [CHR 0x27] @ ''hi'' @ [CHR 0x27]
             @ [CHR 0x0A, CHR 0x0A] @ ''I also received 1 file(s): notes.txt'')"
proof -
  let ?st = "initialize_session_state sample_time"
  have h1: "strip ''hi'' \<noteq> []" by (simp add: strip_def isspace_def)
  have h2: "send_attachments (Some sample_file)
       = Inr [\<lparr> att_name = ''notes.txt'', att_size = 5, att_type = ''text/plain'',
                 att_content = Some ''hello'' \<rparr>]"
    by (simp add: send_attachments_def process_uploaded_file_def sample_file_def startswith_def)
  have h3: "map_of (threads ?st) (current_thread ?st)
       = Some \<lparr> t_id = ''main'', t_name = ''Main Conversation'', t_messages = [],
                t_parent_thread_id = None, t_created_at = sample_time \<rparr>"
    by (simp add: initialize_session_state_def)
  have cur: "current_thread ?st = ''main''" by (simp add: initialize_session_state_def)
  have one: "str_int 1 = ''1''" by code_simp
  from send_assistant_reply_text [OF h1 h2 h3, of False False "sample_tick 1" "sample_tick 2"]
    h1 h2 h3
  show ?thesis unfolding cur by (auto simp: one)
qed

section \<open>Appending to a thread\<close>

text \<open>
  Claim C5: \<open>add_message\<close> never fails. When the thread id is not in the store, the store
  gains a thread with that id, the default name \<open>Thread n\<close> (\<open>n\<close> one more than the number
  of threads before the call) and the message as its whole sequence; when the id is in the
  store, the message goes to the end of the thread's sequence. No other entry of the store
  changes. Without a thread id the current thread is taken.
\<close>

theorem add_message_appends_or_creates:
  "map_of (threads (add_message st ms now created content role thread_id atts pid)) =
     (let tid = (case thread_id of None \<Rightarrow> current_thread st | Some t \<Rightarrow> t);
          message = \<lparr> m_id = ''msg_'' @ str_int ms, m_content = content, m_role = role,
                      m_timestamp = now, m_parent_id = pid, m_thread_id = tid,
                      m_attachments = atts \<rparr>
      in (map_of (threads st))(tid \<mapsto>
            (case map_of (threads st) tid of
               None \<Rightarrow>
                 \<lparr> t_id = tid,
                   t_name = ''Thread '' @ str_int (int (length (threads st)) + 1),
                   t_messages = [message], t_parent_thread_id = None,
                   t_created_at = created \<rparr>
             | Some th \<Rightarrow> th\<lparr>t_messages := t_messages th @ [message]\<rparr>)))"
  by (simp add: add_message_def Let_def update_conv' split: option.splits)

text \<open>
  Claim C10: a thread that \<open>add_message\<close> creates for an unknown id (the id passed to it,
  or the current thread's id when none is passed) has no parent, so the root loop of the
  thread hierarchy lists it, and right after the call its sequence is the one appended
  message.
\<close>

theorem add_message_new_thread_is_root:
  assumes "tid = (case thread_id of None \<Rightarrow> current_thread st | Some t \<Rightarrow> t)"
    and "map_of (threads st) tid = None"
  shows "\<exists>th. map_of (threads (add_message st ms now created content role thread_id atts pid)) tid
                 = Some th
     \<and> t_parent_thread_id th = None
     \<and> t_messages th = [\<lparr> m_id = ''msg_'' @ str_int ms, m_content = content, m_role = role,
                            m_timestamp = now, m_parent_id = pid, m_thread_id = tid,
                            m_attachments = atts \<rparr>]
     \<and> (tid, th) \<in> set (root_threads
                            (add_message st ms now created content role thread_id atts pid))"
proof -
  let ?m = "\<lparr> m_id = ''msg_'' @ str_int ms, m_content = content, m_role = role,
               m_timestamp = now, m_parent_id = pid, m_thread_id = tid,
               m_attachments = atts \<rparr>"
  let ?th = "\<lparr> t_id = tid, t_name = ''Thread '' @ str_int (int (length (threads st)) + 1),
                t_messages = [?m], t_parent_thread_id = None, t_created_at = created \<rparr>"
  let ?st' = "add_message st ms now created content role thread_id atts pid"
  have thr: "threads ?st' = threads st @ [(tid, ?th)]"
    using assms by (simp add: add_message_def Let_def update_fresh)
  have "map_of (threads ?st') tid = Some ?th"
    using assms(2) by (simp add: thr map_add_def)
  moreover have "(tid, ?th) \<in> set (root_threads ?st')"
    by (simp add: thr root_threads_def)
  ultimately show ?thesis by simp
qed

theorem add_message_new_thread_is_root_witness:
  "''side'' = (case Some ''side'' of None \<Rightarrow> current_thread sample_state | Some t \<Rightarrow> t)
   \<and> map_of (threads sample_state) ''side'' = None
   \<and> (\<exists>th. map_of (threads (add_message sample_state 20 sample_time sample_time ''note''
                     ''user'' (Some ''side'') [] None)) ''side'' = Some th
         \<and> t_parent_thread_id th = None
         \<and> map m_content (t_messages th) = [''note'']
         \<and> (''side'', th) \<in> set (root_threads (add_message sample_state 20 sample_time
                     sample_time ''note'' ''user'' (Some ''side'') [] None)))"
proof -
  have given: "''side'' = (case Some ''side'' of None \<Rightarrow> current_thread sample_state | Some t \<Rightarrow> t)"
    by simp
  have fresh: "map_of (threads sample_state) ''side'' = None"
    by (simp add: sample_state_def)
  from add_message_new_thread_is_root
    [OF given fresh, of 20 sample_time sample_time "''note''" "''user''" "[]" None]
  obtain th where
    "map_of (threads (add_message sample_state 20 sample_time sample_time ''note''
         ''user'' (Some ''side'') [] None)) ''side'' = Some th"
    and "t_parent_thread_id th = None"
    and "map m_content (t_messages th) = [''note'']"
    and "(''side'', th) \<in> set (root_threads (add_message sample_state 20 sample_time
         sample_time ''note'' ''user'' (Some ''side'') [] None))"
    by auto
  then have "\<exists>th. map_of (threads (add_message sample_state 20 sample_time sample_time ''note''
                     ''user'' (Some ''side'') [] None)) ''side'' = Some th
         \<and> t_parent_thread_id th = None
         \<and> map m_content (t_messages th) = [''note'']
         \<and> (''side'', th) \<in> set (root_threads (add_message sample_state 20 sample_time
                     sample_time ''note'' ''user'' (Some ''side'') [] None))"
    by (intro exI [of _ th]) simp
  with given fresh show ?thesis by (intro conjI)
qed

section \<open>Switching and clearing\<close>

text \<open>
  Claim C6, as the specification states it: switching to a thread id that is not in the
  store fails with an error. The conversations tab offers one button per thread of the
  store and nothing for any other id: an id outside the store matches no button and the
  run ends normally.
\<close>

theorem switch_unknown_counterexample:
  "\<not> isl (render_conversations_tab (initialize_session_state sample_time) ''thread_404'')
   \<and> ''thread_404'' \<notin> thread_ids (initialize_session_state sample_time)"
  by (simp add: render_conversations_tab_def initialize_session_state_def thread_ids_def)

text \<open>
  Claim C6, amended: switching never fails. With an id that is in the store it sets the
  current thread to that id and changes nothing else; with any other id it leaves the
  whole session state, and so the current thread, as it was.
\<close>

theorem switch_sets_current_or_skips:
  "render_conversations_tab st tid =
     Inr (if tid \<in> thread_ids st then st\<lparr>current_thread := tid\<rparr> else st)"
  by (simp add: render_conversations_tab_def conversations_loop_eq thread_ids_def)

text \<open>
  Claim C7: on a state whose current thread is in the store, the Clear button empties the
  sequence of the current thread, keeps its id, name, parent and creation time, clears the
  pending link target, and changes no other thread: the store after the call is the store
  before it with the emptied thread at the current id, with the same keys in the same
  order.
\<close>

theorem clear_empties_current_thread_only:
  assumes "map_of (threads st) (current_thread st) = Some th"
  shows "\<exists>st' th'. render_input_area st uploaded msg False False True c1 c2 = Inr st'
     \<and> map_of (threads st') = (map_of (threads st))(current_thread st \<mapsto> th')
     \<and> map fst (threads st') = map fst (threads st)
     \<and> t_messages th' = [] \<and> t_id th' = t_id th \<and> t_name th' = t_name th
     \<and> t_parent_thread_id th' = t_parent_thread_id th \<and> t_created_at th' = t_created_at th
     \<and> current_thread st' = current_thread st \<and> link_parent st' = None"
proof -
  from assms have "current_thread st \<in> fst ` set (threads st)"
    using thread_ids_lookup by (simp add: thread_ids_def)
  with assms have "render_input_area st uploaded msg False False True c1 c2 =
      Inr (st\<lparr>threads := AList.update (current_thread st) (th\<lparr>t_messages := []\<rparr>) (threads st),
             link_parent := None\<rparr>)"
    and "map fst (AList.update (current_thread st) (th\<lparr>t_messages := []\<rparr>) (threads st))
           = map fst (threads st)"
    by (simp_all add: render_input_area_def update_keys)
  then show ?thesis
    by (intro exI [of _ "st\<lparr>threads := AList.update (current_thread st)
                              (th\<lparr>t_messages := []\<rparr>) (threads st),
                            link_parent := None\<rparr>"]
          exI [of _ "th\<lparr>t_messages := []\<rparr>"])
       (simp add: update_conv')
qed

theorem clear_empties_current_thread_only_witness:
  "map_of (threads sample_state) (current_thread sample_state)
       = Some \<lparr> t_id = ''main'', t_name = ''Main Conversation'',
                t_messages = [sample_message ''msg_1'' ''Hello'' ''user'' ''main''],
                t_parent_thread_id = None, t_created_at = sample_time \<rparr>
   \<and> link_parent sample_state = Some ''msg_1''
   \<and> (\<exists>st' th'. render_input_area sample_state None [] False False True
                (sample_tick 1) (sample_tick 2) = Inr st'
         \<and> map_of (threads st') ''main'' = Some th'
         \<and> t_messages th' = [] \<and> t_id th' = ''main'' \<and> t_name th' = ''Main Conversation''
         \<and> t_parent_thread_id th' = None
         \<and> map_of (threads st') ''thread_7'' = map_of (threads sample_state) ''thread_7''
         \<and> link_parent st' = None)"
proof -
  have h: "map_of (threads sample_state) (current_thread sample_state)
       = Some \<lparr> t_id = ''main'', t_name = ''Main Conversation'',
                t_messages = [sample_message ''msg_1'' ''Hello'' ''user'' ''main''],
                t_parent_thread_id = None, t_created_at = sample_time \<rparr>"
    by (simp add: sample_state_def)
  have cur: "current_thread sample_state = ''main''"
    and lnk: "link_parent sample_state = Some ''msg_1''"
    by (simp_all add: sample_state_def)
  from clear_empties_current_thread_only [OF h, of None "[]" "sample_tick 1" "sample_tick 2"]
  obtain st' th' where
    "render_input_area sample_state None [] False False True (sample_tick 1) (sample_tick 2)
       = Inr st'"
    and "map_of (threads st') = (map_of (threads sample_state))(''main'' \<mapsto> th')"
    and "t_messages th' = []" "t_id th' = ''main''" "t_name th' = ''Main Conversation''"
      "t_parent_thread_id th' = None" "link_parent st' = None"
    unfolding cur by auto
  then have "\<exists>st' th'. render_input_area sample_state None [] False False True
                (sample_tick 1) (sample_tick 2) = Inr st'
         \<and> map_of (threads st') ''main'' = Some th'
         \<and> t_messages th' = [] \<and> t_id th' = ''main'' \<and> t_name th' = ''Main Conversation''
         \<and> t_parent_thread_id th' = None
         \<and> map_of (threads st') ''thread_7'' = map_of (threads sample_state) ''thread_7''
         \<and> link_parent st' = None"
    by (intro exI [of _ st'] exI [of _ th']) simp
  with h lnk show ?thesis by (intro conjI)
qed

section \<open>Reachable states\<close>

text \<open>
  Claim C8: in every state that the session reaches from its initialisation by script runs
  (sending, creating a thread from the header or the input area, switching in the
  conversations tab, clearing, and also picking a link target, removing a file, toggling
  the theme and exporting), whether a run ended normally or with an exception, the
  current thread is in the store and the main thread is in the store. The buttons of the
  thread hierarchy switch to ids of the store as the conversations tab does.
\<close>

theorem reachable_current_and_main_present:
  "reachable st \<Longrightarrow> current_thread st \<in> thread_ids st \<and> ''main'' \<in> thread_ids st"
proof -
  assume "reachable st"
  then have "store_inv st"
  proof (induction rule: reachable.induct)
    case (reachable_init now)
    show ?case by (simp add: store_inv_def initialize_session_state_def thread_ids_def)
  next
    case (reachable_step st ev st')
    then show ?case using step_inv [of st ev] by simp
  next
    case (reachable_raise st ev e st')
    then show ?case using step_inv [of st ev] by simp
  qed
  then show ?thesis by (simp add: store_inv_def)
qed

theorem reachable_current_and_main_present_witness:
  "reachable ((snd (create_new_thread (initialize_session_state sample_time) 7 sample_time None))
               \<lparr>current_thread := ''thread_7''\<rparr>)
   \<and> ''thread_7'' \<in> thread_ids
        ((snd (create_new_thread (initialize_session_state sample_time) 7 sample_time None))
               \<lparr>current_thread := ''thread_7''\<rparr>)
   \<and> ''main'' \<in> thread_ids
        ((snd (create_new_thread (initialize_session_state sample_time) 7 sample_time None))
               \<lparr>current_thread := ''thread_7''\<rparr>)"
proof -
  let ?S = "(snd (create_new_thread (initialize_session_state sample_time) 7 sample_time None))
               \<lparr>current_thread := ''thread_7''\<rparr>"
  have seven: "str_int 7 = ''7''" by code_simp
  have "step (initialize_session_state sample_time)
          (Chat True None None [] False False False (sample_tick 7) (sample_tick 8)) = Inr ?S"
    by (simp add: render_chat_interface_def initialize_session_state_def sample_tick_def
        create_new_thread_def Let_def seven)
  with reachable_init [of sample_time] have r: "reachable ?S"
    by (rule reachable_step)
  from reachable_current_and_main_present [OF r] r show ?thesis by simp
qed

section \<open>Exporting\<close>




end
